theory Spec2Isabelle
  imports Complex_Main "HOL-Library.Char_ord" "HOL-Library.List_Lexorder"
begin

section \<open>Data model (src/types/qfd.ts)\<close>

text \<open>
  A TypeScript \<open>number\<close> is modelled as an exact \<open>real\<close>. The two operations of the
  engine whose JavaScript result can leave the finite numbers are made explicit:
  a division whose divisor is zero (JavaScript gives NaN or an infinity) and
  \<open>Math.max\<close> of no argument (JavaScript gives minus infinity) return \<open>None\<close>.
  An optional field \<open>id?: string\<close> is a \<open>string option\<close>, \<open>None\<close> standing for
  \<open>undefined\<close>. Identifiers are \<open>string\<close>s ordered lexicographically by character
  code, which is the order of JavaScript's default \<open>sort\<close> on the identifiers the
  application generates. Field names shared by several interfaces are qualified by the
  record (\<open>TechnicalRequirement.id\<close>); a local variable of the source whose name is also
  a field name carries a prime.
\<close>

datatype RelationshipStrength = NONE | WEAK | MEDIUM | STRONG

datatype CorrelationType = NONE | POSITIVE | STRONG_POSITIVE | NEGATIVE | STRONG_NEGATIVE

text \<open>The numeric value of a relationship strength.\<close>

fun strength_value :: "RelationshipStrength \<Rightarrow> real" where
  "strength_value RelationshipStrength.NONE = 0"
| "strength_value RelationshipStrength.WEAK = 1"
| "strength_value RelationshipStrength.MEDIUM = 3"
| "strength_value RelationshipStrength.STRONG = 9"

record CustomerRequirement =
  id :: "string option"
  description :: string
  importance :: real
  competitorRatings :: "real list"

record TechnicalRequirement =
  id :: "string option"
  description :: string
  unit :: string
  target :: string
  difficulty :: real
  importance :: real

record Relationship =
  customerReqId :: string
  technicalReqId :: string
  strength :: RelationshipStrength

record TechnicalCorrelation =
  techReq1Id :: string
  techReq2Id :: string
  correlation :: CorrelationType

record QFDData =
  customerRequirements :: "CustomerRequirement list"
  technicalRequirements :: "TechnicalRequirement list"
  relationships :: "Relationship list"
  technicalCorrelations :: "TechnicalCorrelation list"
  competitorNames :: "string list"

record TechnicalPriority =
  id :: "string option"
  description :: string
  score :: real
  relativeWeight :: real

datatype Band = Low | Medium | High | Critical

datatype ImpactLabel = Isolated | Synergistic | Conflicted | Complex

record CorrelationImpactSummary =
  totalCorrelations :: int
  positiveCount :: int
  negativeCount :: int
  netImpact :: int
  impact :: ImpactLabel

record CorrelationInsight =
  req1 :: string
  req2 :: string
  correlation :: CorrelationType
  priority1Score :: real
  priority2Score :: real
  impact :: string
  recommendation :: string

record TargetImpactAnalysis =
  id :: "string option"
  description :: string
  target :: string
  unit :: string
  difficulty :: real
  priorityScore :: real
  normalizedPriority :: real
  implementationChallenge :: Band
  strategicImportance :: Band
  correlationImpact :: CorrelationImpactSummary
  recommendation :: string

record CorrelationImpactResult =
  priorities :: "TechnicalPriority list"
  correlationInsights :: "CorrelationInsight list"

section \<open>Numeric primitives\<close>

definition js_div :: "real \<Rightarrow> real \<Rightarrow> real option" where
  "js_div a b = (if b = 0 then None else Some (a / b))"

fun Math_max :: "real list \<Rightarrow> real option" where
  "Math_max [] = None"
| "Math_max (x # xs) = Some (fold max xs x)"

text \<open>\<open>Array.prototype.findIndex\<close>: the first index whose element satisfies the
  predicate, \<open>-1\<close> when there is none.\<close>

fun findIndex :: "('a \<Rightarrow> bool) \<Rightarrow> 'a list \<Rightarrow> int" where
  "findIndex P [] = - 1"
| "findIndex P (x # xs) =
     (if P x then 0 else (let i = findIndex P xs in if i < 0 then - 1 else i + 1))"

section \<open>Priority scorer and classifier (utils/qfdCalculations)\<close>

definition calculateTechnicalPriorities :: "QFDData \<Rightarrow> TechnicalPriority list" where
  "calculateTechnicalPriorities data =
     map (\<lambda>techReq.
       let score = foldl (\<lambda>sum custReq.
             let relationship = find (\<lambda>r.
                   Some (customerReqId r) = CustomerRequirement.id custReq \<and>
                   Some (technicalReqId r) = TechnicalRequirement.id techReq)
                   (relationships data);
                 relationshipValue = (case relationship of
                     Some r \<Rightarrow> strength r
                   | None \<Rightarrow> RelationshipStrength.NONE)
             in sum + CustomerRequirement.importance custReq * strength_value relationshipValue)
           0 (customerRequirements data)
       in \<lparr>TechnicalPriority.id = TechnicalRequirement.id techReq,
           description = TechnicalRequirement.description techReq,
           score = score,
           relativeWeight = 0\<rparr>)
     (technicalRequirements data)"

definition getImplementationChallenge :: "real \<Rightarrow> real \<Rightarrow> Band" where
  "getImplementationChallenge difficulty' priority =
     (let challengeScore = (difficulty' * 20) + (priority * 0.3) in
      if challengeScore > 80 then Critical
      else if challengeScore > 60 then High
      else if challengeScore > 40 then Medium
      else Low)"

definition getStrategicImportance :: "real \<Rightarrow> real \<Rightarrow> Band" where
  "getStrategicImportance priority difficulty' =
     (if priority > 70 then (if difficulty' \<ge> 4 then Critical else High)
      else if priority > 40 then (if difficulty' \<ge> 4 then High else Medium)
      else if priority > 20 then Medium
      else Low)"

text \<open>The four counters of \<open>getCorrelationImpact\<close>, in the order positiveCount,
  negativeCount, strongPositiveCount, strongNegativeCount, and the body of its
  \<open>forEach\<close>.\<close>

type_synonym counters = "int \<times> int \<times> int \<times> int"

fun countCorrelation :: "counters \<Rightarrow> TechnicalCorrelation \<Rightarrow> counters" where
  "countCorrelation (positiveCount', negativeCount', strongPositiveCount, strongNegativeCount) corr =
     (case TechnicalCorrelation.correlation corr of
        CorrelationType.STRONG_POSITIVE \<Rightarrow>
          (positiveCount', negativeCount', strongPositiveCount + 1, strongNegativeCount)
      | CorrelationType.POSITIVE \<Rightarrow>
          (positiveCount' + 1, negativeCount', strongPositiveCount, strongNegativeCount)
      | CorrelationType.NEGATIVE \<Rightarrow>
          (positiveCount', negativeCount' + 1, strongPositiveCount, strongNegativeCount)
      | CorrelationType.STRONG_NEGATIVE \<Rightarrow>
          (positiveCount', negativeCount', strongPositiveCount, strongNegativeCount + 1)
      | CorrelationType.NONE \<Rightarrow>
          (positiveCount', negativeCount', strongPositiveCount, strongNegativeCount))"

definition getCorrelationImpact ::
  "TechnicalCorrelation list \<Rightarrow> TechnicalRequirement list \<Rightarrow> TechnicalPriority list
     \<Rightarrow> CorrelationImpactSummary" where
  "getCorrelationImpact correlations techReqs priorities' =
     (case foldl countCorrelation (0, 0, 0, 0) correlations of
        (positiveCount', negativeCount', strongPositiveCount, strongNegativeCount) \<Rightarrow>
          let totalCorrelations' = int (length correlations);
              netPositive = (strongPositiveCount * 2 + positiveCount')
                              - (strongNegativeCount * 2 + negativeCount');
              impact' = (if totalCorrelations' = 0 then Isolated
                        else if netPositive > 1 then Synergistic
                        else if netPositive < - 1 then Conflicted
                        else Complex)
          in \<lparr>totalCorrelations = totalCorrelations',
              positiveCount = positiveCount' + strongPositiveCount,
              negativeCount = negativeCount' + strongNegativeCount,
              netImpact = netPositive,
              impact = impact'\<rparr>)"

definition getTargetRecommendation :: "real \<Rightarrow> real \<Rightarrow> CorrelationImpactSummary \<Rightarrow> string" where
  "getTargetRecommendation priority difficulty' correlationImpact' =
     (let isHighPriority = priority > 50;
          isHighDifficulty = difficulty' \<ge> 4;
          hasPositiveCorrelations = positiveCount correlationImpact' > 0;
          hasNegativeCorrelations = negativeCount correlationImpact' > 0
      in if isHighPriority \<and> isHighDifficulty \<and> hasNegativeCorrelations then
           ''CRITICAL: High-priority, difficult target with conflicts. Consider phased approach or alternative solutions.''
         else if isHighPriority \<and> hasPositiveCorrelations then
           ''OPPORTUNITY: High-priority target with synergies. Bundle with correlated requirements for efficiency.''
         else if isHighPriority \<and> isHighDifficulty then
           ''FOCUS: High-priority but challenging target. Allocate experienced resources and consider risk mitigation.''
         else if isHighPriority then
           ''PRIORITY: Important target with manageable complexity. Good candidate for early implementation.''
         else if hasPositiveCorrelations then
           ''SYNERGY: Consider implementing alongside correlated high-priority requirements.''
         else if hasNegativeCorrelations then
           ''CAUTION: Monitor trade-offs with other requirements during implementation.''
         else
           ''STANDARD: Can be implemented independently with normal resource allocation.'')"

text \<open>The callback that \<open>calculateTargetImpact\<close> maps over the technical requirements,
  with the variables it closes over as parameters.\<close>

definition targetImpactOf ::
  "QFDData \<Rightarrow> TechnicalPriority list \<Rightarrow> real \<Rightarrow> TechnicalRequirement
     \<Rightarrow> TargetImpactAnalysis option" where
  "targetImpactOf data priorities' maxScore techReq =
     (let priority = find (\<lambda>p. TechnicalPriority.id p = TechnicalRequirement.id techReq)
                       priorities';
          priorityScore' = (case priority of
              None \<Rightarrow> 0
            | Some p \<Rightarrow> if score p = 0 then 0 else score p)
      in case js_div priorityScore' maxScore of
           None \<Rightarrow> None
         | Some ratio \<Rightarrow>
             let normalizedPriority' = ratio * 100;
                 implementationChallenge' =
                   getImplementationChallenge (TechnicalRequirement.difficulty techReq)
                     normalizedPriority';
                 strategicImportance' =
                   getStrategicImportance normalizedPriority'
                     (TechnicalRequirement.difficulty techReq);
                 correlations = filter (\<lambda>corr.
                     Some (techReq1Id corr) = TechnicalRequirement.id techReq \<or>
                     Some (techReq2Id corr) = TechnicalRequirement.id techReq)
                     (technicalCorrelations data);
                 correlationImpact' =
                   getCorrelationImpact correlations (technicalRequirements data) priorities'
             in Some \<lparr>TargetImpactAnalysis.id = TechnicalRequirement.id techReq,
                      description = TechnicalRequirement.description techReq,
                      target = TechnicalRequirement.target techReq,
                      unit = TechnicalRequirement.unit techReq,
                      difficulty = TechnicalRequirement.difficulty techReq,
                      priorityScore = priorityScore',
                      normalizedPriority = normalizedPriority',
                      implementationChallenge = implementationChallenge',
                      strategicImportance = strategicImportance',
                      correlationImpact = correlationImpact',
                      recommendation =
                        getTargetRecommendation normalizedPriority'
                          (TechnicalRequirement.difficulty techReq) correlationImpact'\<rparr>)"

definition calculateTargetImpact :: "QFDData \<Rightarrow> TargetImpactAnalysis list option" where
  "calculateTargetImpact data =
     (let priorities' = calculateTechnicalPriorities data in
      case Math_max (map score priorities' @ [1]) of
        None \<Rightarrow> None
      | Some maxScore \<Rightarrow>
          those (map (targetImpactOf data priorities' maxScore) (technicalRequirements data)))"

section \<open>Correlation analyser and weight normaliser (utils/qfdCalculations)\<close>

definition getCorrelationImpactDescription :: "CorrelationType \<Rightarrow> real \<Rightarrow> real \<Rightarrow> string" where
  "getCorrelationImpactDescription correlation' score1 score2 =
     (let higherScore = max score1 score2;
          lowerScore = min score1 score2
      in case correlation' of
           CorrelationType.STRONG_POSITIVE \<Rightarrow>
             ''Strong synergy: Working on one requirement significantly helps the other. Combined impact is amplified.''
         | CorrelationType.POSITIVE \<Rightarrow>
             ''Positive synergy: Improvements in one requirement help the other. Look for combined solutions.''
         | CorrelationType.NEGATIVE \<Rightarrow>
             ''Trade-off exists: Improving one may compromise the other. Balance is needed.''
         | CorrelationType.STRONG_NEGATIVE \<Rightarrow>
             ''Strong trade-off: Significant conflict between requirements. Careful optimization required.''
         | CorrelationType.NONE \<Rightarrow>
             ''No significant interaction between these requirements.'')"

definition getCorrelationRecommendation :: "CorrelationType \<Rightarrow> real \<Rightarrow> real \<Rightarrow> string" where
  "getCorrelationRecommendation correlation' score1 score2 =
     (let totalScore = score1 + score2
      in case correlation' of
           CorrelationType.STRONG_POSITIVE \<Rightarrow>
             (if totalScore > 50
              then ''HIGH PRIORITY: Focus on solutions that address both requirements simultaneously for maximum impact.''
              else ''Consider bundling these requirements in your development approach.'')
         | CorrelationType.POSITIVE \<Rightarrow>
             (if totalScore > 40
              then ''Look for integrated solutions that can improve both requirements together.''
              else ''Moderate synergy - consider combined approaches when possible.'')
         | CorrelationType.NEGATIVE \<Rightarrow>
             (if totalScore > 60
              then ''CRITICAL: High-priority requirements in conflict. Develop compromise solutions or phased approach.''
              else ''Monitor trade-offs carefully during implementation.'')
         | CorrelationType.STRONG_NEGATIVE \<Rightarrow>
             (if totalScore > 50
              then ''URGENT: Strong conflict between important requirements. Consider alternative approaches or accept trade-offs.''
              else ''Strong conflict exists - may need to prioritize one over the other.'')
         | CorrelationType.NONE \<Rightarrow>
             ''Requirements can be addressed independently.'')"

text \<open>The body of the \<open>forEach\<close> of \<open>calculateCorrelationImpact\<close>: an insight is pushed
  when both requirements and both priorities are found.\<close>

definition pushInsight ::
  "QFDData \<Rightarrow> TechnicalPriority list \<Rightarrow> CorrelationInsight list \<Rightarrow> TechnicalCorrelation
     \<Rightarrow> CorrelationInsight list" where
  "pushInsight data basePriorities insights corr =
     (let req1' = find (\<lambda>r. TechnicalRequirement.id r = Some (techReq1Id corr))
                    (technicalRequirements data);
          req2' = find (\<lambda>r. TechnicalRequirement.id r = Some (techReq2Id corr))
                    (technicalRequirements data);
          priority1 = find (\<lambda>p. TechnicalPriority.id p = Some (techReq1Id corr)) basePriorities;
          priority2 = find (\<lambda>p. TechnicalPriority.id p = Some (techReq2Id corr)) basePriorities
      in case (req1', req2', priority1, priority2) of
           (Some r1, Some r2, Some p1, Some p2) \<Rightarrow>
             insights @
               [\<lparr>req1 = TechnicalRequirement.description r1,
                 req2 = TechnicalRequirement.description r2,
                 correlation = TechnicalCorrelation.correlation corr,
                 priority1Score = score p1,
                 priority2Score = score p2,
                 impact = getCorrelationImpactDescription
                            (TechnicalCorrelation.correlation corr) (score p1) (score p2),
                 recommendation = getCorrelationRecommendation
                            (TechnicalCorrelation.correlation corr) (score p1) (score p2)\<rparr>]
         | _ \<Rightarrow> insights)"

definition calculateCorrelationImpact :: "QFDData \<Rightarrow> CorrelationImpactResult" where
  "calculateCorrelationImpact data =
     (let basePriorities = calculateTechnicalPriorities data;
          correlationInsights' =
            foldl (pushInsight data basePriorities) [] (technicalCorrelations data)
      in \<lparr>priorities = basePriorities, correlationInsights = correlationInsights'\<rparr>)"

definition normalizeWeights :: "TechnicalPriority list \<Rightarrow> TechnicalPriority list option" where
  "normalizeWeights priorities' =
     (let totalScore = foldl (\<lambda>sum p. sum + score p) 0 priorities' in
      if totalScore = 0 then Some priorities'
      else those (map (\<lambda>p.
             case js_div (score p) totalScore of
               None \<Rightarrow> None
             | Some ratio \<Rightarrow> Some (p\<lparr>relativeWeight := ratio * 100\<rparr>))
           priorities'))"

section \<open>Storing a correlation (hooks/useQFDData.ts)\<close>

text \<open>The state updater passed to \<open>setData\<close> by \<open>updateCorrelation\<close>, as a function of the
  previous state. \<open>splice(i, 1)\<close> removes the element at index \<open>i\<close>; the two-element
  array is sorted by the default string order and destructured by index.\<close>

definition updateCorrelation ::
  "string \<Rightarrow> string \<Rightarrow> CorrelationType \<Rightarrow> QFDData \<Rightarrow> QFDData" where
  "updateCorrelation techReq1Id' techReq2Id' correlation' prev =
     (let existingCorrIndex = findIndex (\<lambda>corr.
            (techReq1Id corr = techReq1Id' \<and> techReq2Id corr = techReq2Id') \<or>
            (techReq1Id corr = techReq2Id' \<and> techReq2Id corr = techReq1Id'))
            (technicalCorrelations prev);
          newCorrelations = technicalCorrelations prev
      in if correlation' = CorrelationType.NONE then
           (if existingCorrIndex \<ge> 0
            then prev\<lparr>technicalCorrelations :=
                   take (nat existingCorrIndex) newCorrelations @
                   drop (Suc (nat existingCorrIndex)) newCorrelations\<rparr>
            else prev\<lparr>technicalCorrelations := newCorrelations\<rparr>)
         else
           (let sorted' = sort [techReq1Id', techReq2Id'];
                req1' = sorted' ! 0;
                req2' = sorted' ! 1;
                newCorr = \<lparr>techReq1Id = req1', techReq2Id = req2', correlation = correlation'\<rparr>
            in if existingCorrIndex \<ge> 0
               then prev\<lparr>technicalCorrelations :=
                      newCorrelations[nat existingCorrIndex := newCorr]\<rparr>
               else prev\<lparr>technicalCorrelations := newCorrelations @ [newCorr]\<rparr>))"

section \<open>Specification-side notions\<close>

text \<open>The relationship records read as the matrix of the data model: a finite map from
  the pair (customer requirement id, technical requirement id) to a strength.\<close>

definition relationshipMatrix ::
  "Relationship list \<Rightarrow> (string \<times> string) \<rightharpoonup> RelationshipStrength" where
  "relationshipMatrix rels =
     map_of (map (\<lambda>r. ((customerReqId r, technicalReqId r), strength r)) rels)"

text \<open>\<open>strength(c, t)\<close> of the specification: the strength recorded for the pair, and 0
  when the matrix has no entry for it.\<close>

definition spec_strength ::
  "Relationship list \<Rightarrow> CustomerRequirement \<Rightarrow> TechnicalRequirement \<Rightarrow> real" where
  "spec_strength rels c t =
     (case (CustomerRequirement.id c, TechnicalRequirement.id t) of
        (Some cid, Some tid) \<Rightarrow>
          (case relationshipMatrix rels (cid, tid) of
             None \<Rightarrow> 0
           | Some s \<Rightarrow> strength_value s)
      | _ \<Rightarrow> 0)"

text \<open>\<open>Score(t)\<close> of the specification.\<close>

definition spec_score :: "QFDData \<Rightarrow> TechnicalRequirement \<Rightarrow> real" where
  "spec_score data t =
     (\<Sum>c\<leftarrow>customerRequirements data.
        CustomerRequirement.importance c * spec_strength (relationships data) c t)"

text \<open>The number of records of a list that carry a given correlation value.\<close>

definition countOf :: "CorrelationType \<Rightarrow> TechnicalCorrelation list \<Rightarrow> int" where
  "countOf c corrs = int (length (filter (\<lambda>x. TechnicalCorrelation.correlation x = c) corrs))"

text \<open>The order of the bands: Low, Medium, High, Critical.\<close>

fun band_rank :: "Band \<Rightarrow> nat" where
  "band_rank Low = 0"
| "band_rank Medium = 1"
| "band_rank High = 2"
| "band_rank Critical = 3"

text \<open>A record is about the unordered pair of \<open>a\<close> and \<open>b\<close>; the canonical key of a
  record; a list of records with at most one record per unordered pair.\<close>

definition samePair :: "string \<Rightarrow> string \<Rightarrow> TechnicalCorrelation \<Rightarrow> bool" where
  "samePair a b corr =
     ((techReq1Id corr = a \<and> techReq2Id corr = b) \<or> (techReq1Id corr = b \<and> techReq2Id corr = a))"

definition canonicalPair :: "TechnicalCorrelation \<Rightarrow> string \<times> string" where
  "canonicalPair corr =
     (min (techReq1Id corr) (techReq2Id corr), max (techReq1Id corr) (techReq2Id corr))"

definition uniquePairs :: "TechnicalCorrelation list \<Rightarrow> bool" where
  "uniquePairs corrs = distinct (map canonicalPair corrs)"

section \<open>Concrete inputs\<close>

text \<open>The snapshot installed by \<open>loadSampleData\<close> (hooks/useQFDData.ts).\<close>

definition sampleData :: QFDData where
  "sampleData =
     \<lparr>customerRequirements =
        [\<lparr>CustomerRequirement.id = Some ''cust1'', description = ''Easy to use interface'',
           importance = 5, competitorRatings = [3, 4]\<rparr>,
         \<lparr>CustomerRequirement.id = Some ''cust2'', description = ''Fast response time'',
           importance = 4, competitorRatings = [4, 3]\<rparr>,
         \<lparr>CustomerRequirement.id = Some ''cust3'', description = ''Reliable operation'',
           importance = 5, competitorRatings = [3, 5]\<rparr>],
      technicalRequirements =
        [\<lparr>TechnicalRequirement.id = Some ''tech1'', description = ''Response time'',
           unit = ''ms'', target = ''<200'', difficulty = 3, importance = 0\<rparr>,
         \<lparr>TechnicalRequirement.id = Some ''tech2'', description = ''UI complexity score'',
           unit = ''points'', target = ''<50'', difficulty = 2, importance = 0\<rparr>,
         \<lparr>TechnicalRequirement.id = Some ''tech3'', description = ''System uptime'',
           unit = ''%'', target = ''>99.9'', difficulty = 4, importance = 0\<rparr>],
      relationships =
        [\<lparr>customerReqId = ''cust1'', technicalReqId = ''tech2'',
           strength = RelationshipStrength.STRONG\<rparr>,
         \<lparr>customerReqId = ''cust2'', technicalReqId = ''tech1'',
           strength = RelationshipStrength.STRONG\<rparr>,
         \<lparr>customerReqId = ''cust3'', technicalReqId = ''tech3'',
           strength = RelationshipStrength.STRONG\<rparr>,
         \<lparr>customerReqId = ''cust1'', technicalReqId = ''tech1'',
           strength = RelationshipStrength.MEDIUM\<rparr>],
      technicalCorrelations =
        [\<lparr>techReq1Id = ''tech1'', techReq2Id = ''tech2'',
           correlation = CorrelationType.NEGATIVE\<rparr>,
         \<lparr>techReq1Id = ''tech1'', techReq2Id = ''tech3'',
           correlation = CorrelationType.POSITIVE\<rparr>,
         \<lparr>techReq1Id = ''tech2'', techReq2Id = ''tech3'',
           correlation = CorrelationType.STRONG_POSITIVE\<rparr>],
      competitorNames = [''Product A'', ''Product B'']\<rparr>"

text \<open>Two technical requirements A and B with raw scores 30 and 25 and a strong positive
  correlation between them.\<close>

definition scenarioC :: QFDData where
  "scenarioC =
     \<lparr>customerRequirements =
        [\<lparr>CustomerRequirement.id = Some ''c1'', description = ''first'',
           importance = 5, competitorRatings = []\<rparr>,
         \<lparr>CustomerRequirement.id = Some ''c2'', description = ''second'',
           importance = 5, competitorRatings = []\<rparr>,
         \<lparr>CustomerRequirement.id = Some ''c3'', description = ''third'',
           importance = 5, competitorRatings = []\<rparr>],
      technicalRequirements =
        [\<lparr>TechnicalRequirement.id = Some ''a'', description = ''A'',
           unit = ''ms'', target = ''<10'', difficulty = 3, importance = 0\<rparr>,
         \<lparr>TechnicalRequirement.id = Some ''b'', description = ''B'',
           unit = ''ms'', target = ''<10'', difficulty = 3, importance = 0\<rparr>],
      relationships =
        [\<lparr>customerReqId = ''c1'', technicalReqId = ''a'',
           strength = RelationshipStrength.MEDIUM\<rparr>,
         \<lparr>customerReqId = ''c2'', technicalReqId = ''a'',
           strength = RelationshipStrength.MEDIUM\<rparr>,
         \<lparr>customerReqId = ''c1'', technicalReqId = ''b'',
           strength = RelationshipStrength.MEDIUM\<rparr>,
         \<lparr>customerReqId = ''c2'', technicalReqId = ''b'',
           strength = RelationshipStrength.WEAK\<rparr>,
         \<lparr>customerReqId = ''c3'', technicalReqId = ''b'',
           strength = RelationshipStrength.WEAK\<rparr>],
      technicalCorrelations =
        [\<lparr>techReq1Id = ''a'', techReq2Id = ''b'',
           correlation = CorrelationType.STRONG_POSITIVE\<rparr>],
      competitorNames = []\<rparr>"

section \<open>The classifier\<close>

text \<open>
  C5. The Implementation Challenge band of a difficulty \<open>d\<close> and a normalized priority \<open>p\<close>
  is decided by the challenge score \<open>d * 20 + p * 0.3\<close>: Critical exactly when the score is
  above 80, High exactly when it is above 60 and at most 80, Medium exactly when it is above
  40 and at most 60, Low exactly when it is at most 40. For difficulty 3 and normalized
  priority 100 the score is 90 and the band is Critical.
\<close>

theorem implementation_challenge_bands:
  "(getImplementationChallenge d p = Critical \<longleftrightarrow> d * 20 + p * 0.3 > 80) \<and>
   (getImplementationChallenge d p = High \<longleftrightarrow> 60 < d * 20 + p * 0.3 \<and> d * 20 + p * 0.3 \<le> 80) \<and>
   (getImplementationChallenge d p = Medium \<longleftrightarrow> 40 < d * 20 + p * 0.3 \<and> d * 20 + p * 0.3 \<le> 60) \<and>
   (getImplementationChallenge d p = Low \<longleftrightarrow> d * 20 + p * 0.3 \<le> 40) \<and>
   (3 :: real) * 20 + 100 * 0.3 = 90 \<and>
   getImplementationChallenge 3 100 = Critical"
  by (simp add: getImplementationChallenge_def Let_def)

theorem implementation_challenge_bands_witness:
  "getImplementationChallenge 3 100 = Critical \<and> getImplementationChallenge 3 50 = High \<and>
   getImplementationChallenge 1 100 = Medium \<and> getImplementationChallenge 1 0 = Low"
  using implementation_challenge_bands [of 3 100] implementation_challenge_bands [of 3 50]
    implementation_challenge_bands [of 1 100] implementation_challenge_bands [of 1 0]
  by simp

text \<open>
  C6. The Strategic Importance band follows the table: above priority 70 it is Critical for
  difficulty at least 4 and High otherwise; for priority above 40 and at most 70 it is High
  for difficulty at least 4 and Medium otherwise; for priority above 20 and at most 40 it is
  Medium; for priority at most 20 it is Low.
\<close>

theorem strategic_importance_table:
  "(p > 70 \<longrightarrow> getStrategicImportance p d = (if d \<ge> 4 then Critical else High)) \<and>
   (40 < p \<and> p \<le> 70 \<longrightarrow> getStrategicImportance p d = (if d \<ge> 4 then High else Medium)) \<and>
   (20 < p \<and> p \<le> 40 \<longrightarrow> getStrategicImportance p d = Medium) \<and>
   (p \<le> 20 \<longrightarrow> getStrategicImportance p d = Low)"
  by (simp add: getStrategicImportance_def)

theorem strategic_importance_table_witness:
  "getStrategicImportance 100 3 = High \<and> getStrategicImportance 71 4 = Critical \<and>
   getStrategicImportance 70 4 = High \<and> getStrategicImportance 41 1 = Medium \<and>
   getStrategicImportance 40 5 = Medium \<and> getStrategicImportance 20 5 = Low"
  using strategic_importance_table [of 100 3] strategic_importance_table [of 71 4]
    strategic_importance_table [of 70 4] strategic_importance_table [of 41 1]
    strategic_importance_table [of 40 5] strategic_importance_table [of 20 5]
  by simp

text \<open>
  C8. With the difficulty held fixed, both bands are monotone in the normalized priority:
  for \<open>p1 \<le> p2\<close> the Implementation Challenge band at \<open>p2\<close> is not below the one at
  \<open>p1\<close>, and likewise for the Strategic Importance band, in the order Low, Medium, High,
  Critical.
\<close>

theorem classifier_monotone:
  assumes "p1 \<le> p2"
  shows "band_rank (getImplementationChallenge d p1) \<le> band_rank (getImplementationChallenge d p2) \<and>
         band_rank (getStrategicImportance p1 d) \<le> band_rank (getStrategicImportance p2 d)"
  using assms
  by (simp add: getImplementationChallenge_def getStrategicImportance_def Let_def)

theorem classifier_monotone_witness:
  "(30 :: real) \<le> 80 \<and>
   band_rank (getImplementationChallenge 3 30) \<le> band_rank (getImplementationChallenge 3 80) \<and>
   band_rank (getStrategicImportance 30 3) \<le> band_rank (getStrategicImportance 80 3)"
  using classifier_monotone [of 30 80 3] by simp

section \<open>Recommendations\<close>

text \<open>
  C4. The recommendation for one requirement is chosen by a decision list read from the top,
  where high priority means a normalized priority above 50, high difficulty a difficulty of
  at least 4, and has-positive and has-negative that the summary's positive and negative
  counts are above zero: the critical message exactly when high priority, high difficulty and
  has-negative all hold; otherwise the opportunity message exactly when high priority and
  has-positive hold; otherwise the focus message exactly when high priority and high
  difficulty hold; otherwise the priority message exactly when high priority holds; otherwise
  the synergy message exactly when has-positive holds; otherwise the caution message exactly
  when has-negative holds; otherwise the standard message.
\<close>

theorem target_recommendation_decision_list:
  fixes p d :: real and s :: CorrelationImpactSummary
  defines "highPriority \<equiv> p > 50" and "highDifficulty \<equiv> d \<ge> 4"
    and "hasPositive \<equiv> positiveCount s > 0" and "hasNegative \<equiv> negativeCount s > 0"
    and "r \<equiv> getTargetRecommendation p d s"
  shows
  "(r = ''CRITICAL: High-priority, difficult target with conflicts. Consider phased approach or alternative solutions.''
      \<longleftrightarrow> highPriority \<and> highDifficulty \<and> hasNegative) \<and>
   (r = ''OPPORTUNITY: High-priority target with synergies. Bundle with correlated requirements for efficiency.''
      \<longleftrightarrow> \<not> (highPriority \<and> highDifficulty \<and> hasNegative) \<and> highPriority \<and> hasPositive) \<and>
   (r = ''FOCUS: High-priority but challenging target. Allocate experienced resources and consider risk mitigation.''
      \<longleftrightarrow> \<not> (highPriority \<and> highDifficulty \<and> hasNegative) \<and> \<not> (highPriority \<and> hasPositive) \<and>
          highPriority \<and> highDifficulty) \<and>
   (r = ''PRIORITY: Important target with manageable complexity. Good candidate for early implementation.''
      \<longleftrightarrow> \<not> (highPriority \<and> highDifficulty \<and> hasNegative) \<and> \<not> (highPriority \<and> hasPositive) \<and>
          \<not> (highPriority \<and> highDifficulty) \<and> highPriority) \<and>
   (r = ''SYNERGY: Consider implementing alongside correlated high-priority requirements.''
      \<longleftrightarrow> \<not> highPriority \<and> hasPositive) \<and>
   (r = ''CAUTION: Monitor trade-offs with other requirements during implementation.''
      \<longleftrightarrow> \<not> highPriority \<and> \<not> hasPositive \<and> hasNegative) \<and>
   (r = ''STANDARD: Can be implemented independently with normal resource allocation.''
      \<longleftrightarrow> \<not> highPriority \<and> \<not> hasPositive \<and> \<not> hasNegative)"
  unfolding r_def getTargetRecommendation_def Let_def highPriority_def highDifficulty_def
    hasPositive_def hasNegative_def
  by simp

theorem target_recommendation_decision_list_witness:
  "getTargetRecommendation 60 4
     \<lparr>totalCorrelations = 2, positiveCount = 1, negativeCount = 1, netImpact = 0, impact = Complex\<rparr>
     = ''CRITICAL: High-priority, difficult target with conflicts. Consider phased approach or alternative solutions.'' \<and>
   getTargetRecommendation 60 3
     \<lparr>totalCorrelations = 2, positiveCount = 1, negativeCount = 1, netImpact = 0, impact = Complex\<rparr>
     = ''OPPORTUNITY: High-priority target with synergies. Bundle with correlated requirements for efficiency.'' \<and>
   getTargetRecommendation 50 5
     \<lparr>totalCorrelations = 1, positiveCount = 0, negativeCount = 1, netImpact = - 1, impact = Complex\<rparr>
     = ''CAUTION: Monitor trade-offs with other requirements during implementation.''"
  using target_recommendation_decision_list [of 60 4
      "\<lparr>totalCorrelations = 2, positiveCount = 1, negativeCount = 1, netImpact = 0, impact = Complex\<rparr>"]
    target_recommendation_decision_list [of 60 3
      "\<lparr>totalCorrelations = 2, positiveCount = 1, negativeCount = 1, netImpact = 0, impact = Complex\<rparr>"]
    target_recommendation_decision_list [of 50 5
      "\<lparr>totalCorrelations = 1, positiveCount = 0, negativeCount = 1, netImpact = - 1, impact = Complex\<rparr>"]
  by simp

section \<open>The correlation analyser\<close>

lemma foldl_countCorrelation:
  "foldl countCorrelation (p, n, sp, sn) corrs =
     (p + countOf CorrelationType.POSITIVE corrs,
      n + countOf CorrelationType.NEGATIVE corrs,
      sp + countOf CorrelationType.STRONG_POSITIVE corrs,
      sn + countOf CorrelationType.STRONG_NEGATIVE corrs)"
proof (induction corrs arbitrary: p n sp sn)
  case Nil
  show ?case by (simp add: countOf_def)
next
  case (Cons c cs)
  show ?case
    by (cases "TechnicalCorrelation.correlation c") (simp_all add: Cons.IH countOf_def)
qed

text \<open>
  C3. For every list of correlation records handed to \<open>getCorrelationImpact\<close> (for a
  technical requirement: the records that reference it in either position), the net impact
  of the summary is twice the number of strong-positive records plus the number of positive
  records, minus twice the number of strong-negative records plus the number of negative
  records. The label is Isolated exactly when the list is empty, and then the summary's
  positive and negative counts are both 0; it is Synergistic when the net impact is above 1,
  Conflicted when it is below -1, and Complex for a non-empty list otherwise. The summary's
  positive (negative) count is the number of positive and strong-positive (negative and
  strong-negative) records.
\<close>

theorem correlation_impact_summary:
  fixes corrs :: "TechnicalCorrelation list" and techReqs :: "TechnicalRequirement list"
    and prios :: "TechnicalPriority list"
  defines "s \<equiv> getCorrelationImpact corrs techReqs prios"
  shows
  "netImpact s =
     (2 * countOf CorrelationType.STRONG_POSITIVE corrs + countOf CorrelationType.POSITIVE corrs)
       - (2 * countOf CorrelationType.STRONG_NEGATIVE corrs + countOf CorrelationType.NEGATIVE corrs) \<and>
   (CorrelationImpactSummary.impact s = Isolated \<longleftrightarrow> corrs = []) \<and>
   (corrs = [] \<longrightarrow> positiveCount s = 0 \<and> negativeCount s = 0) \<and>
   (netImpact s > 1 \<longrightarrow> CorrelationImpactSummary.impact s = Synergistic) \<and>
   (netImpact s < - 1 \<longrightarrow> CorrelationImpactSummary.impact s = Conflicted) \<and>
   (corrs \<noteq> [] \<and> - 1 \<le> netImpact s \<and> netImpact s \<le> 1 \<longrightarrow>
      CorrelationImpactSummary.impact s = Complex) \<and>
   positiveCount s =
     countOf CorrelationType.POSITIVE corrs + countOf CorrelationType.STRONG_POSITIVE corrs \<and>
   negativeCount s =
     countOf CorrelationType.NEGATIVE corrs + countOf CorrelationType.STRONG_NEGATIVE corrs \<and>
   totalCorrelations s = int (length corrs)"
proof -
  let ?net = "(countOf CorrelationType.STRONG_POSITIVE corrs * 2
                 + countOf CorrelationType.POSITIVE corrs)
              - (countOf CorrelationType.STRONG_NEGATIVE corrs * 2
                 + countOf CorrelationType.NEGATIVE corrs)"
  have s: "s =
     \<lparr>totalCorrelations = int (length corrs),
      positiveCount =
        countOf CorrelationType.POSITIVE corrs + countOf CorrelationType.STRONG_POSITIVE corrs,
      negativeCount =
        countOf CorrelationType.NEGATIVE corrs + countOf CorrelationType.STRONG_NEGATIVE corrs,
      netImpact = ?net,
      impact = (if int (length corrs) = 0 then Isolated
                else if ?net > 1 then Synergistic
                else if ?net < - 1 then Conflicted
                else Complex)\<rparr>"
    unfolding s_def getCorrelationImpact_def
    by (simp add: foldl_countCorrelation Let_def)
  have empty: "countOf c [] = 0" for c
    by (simp add: countOf_def)
  show ?thesis
    by (auto simp add: s empty)
qed

theorem correlation_impact_summary_witness:
  "netImpact (getCorrelationImpact
      (filter (\<lambda>corr. techReq1Id corr = ''tech3'' \<or> techReq2Id corr = ''tech3'')
         (technicalCorrelations sampleData)) [] []) = 3 \<and>
   CorrelationImpactSummary.impact (getCorrelationImpact
      (filter (\<lambda>corr. techReq1Id corr = ''tech3'' \<or> techReq2Id corr = ''tech3'')
         (technicalCorrelations sampleData)) [] []) = Synergistic \<and>
   CorrelationImpactSummary.impact (getCorrelationImpact [] [] []) = Isolated \<and>
   positiveCount (getCorrelationImpact [] [] []) = 0 \<and>
   negativeCount (getCorrelationImpact [] [] []) = 0"
  using correlation_impact_summary [of "[]" "[]" "[]"]
    correlation_impact_summary [of
      "filter (\<lambda>corr. techReq1Id corr = ''tech3'' \<or> techReq2Id corr = ''tech3'')
         (technicalCorrelations sampleData)" "[]" "[]"]
  by (simp add: countOf_def sampleData_def)

section \<open>The priority scorer\<close>

lemma foldl_add_sum_list:
  fixes a :: real
  shows "foldl (\<lambda>sum x. sum + f x) a xs = a + sum_list (map f xs)"
  by (induction xs arbitrary: a) simp_all

lemma find_never: "find (\<lambda>x. False) xs = None"
  by (induction xs) simp_all

lemma find_SomeD: "find P xs = Some x \<Longrightarrow> x \<in> set xs \<and> P x"
  by (induction xs) (auto split: if_splits)

lemma find_NoneD: "find P xs = None \<Longrightarrow> x \<in> set xs \<Longrightarrow> \<not> P x"
  by (induction xs) (auto split: if_splits)

lemma relationshipMatrix_find:
  "relationshipMatrix rels (cid, tid) =
     map_option strength (find (\<lambda>r. customerReqId r = cid \<and> technicalReqId r = tid) rels)"
  by (induction rels) (simp_all add: relationshipMatrix_def)

lemma relationshipValue_spec:
  "strength_value
     (case find (\<lambda>r. Some (customerReqId r) = CustomerRequirement.id c \<and>
                     Some (technicalReqId r) = TechnicalRequirement.id t) rels of
        Some r \<Rightarrow> strength r
      | None \<Rightarrow> RelationshipStrength.NONE) = spec_strength rels c t"
proof (cases "CustomerRequirement.id c")
  case None
  then show ?thesis
    by (simp add: spec_strength_def find_never)
next
  case cid: (Some cid)
  show ?thesis
  proof (cases "TechnicalRequirement.id t")
    case None
    then show ?thesis
      by (simp add: spec_strength_def cid find_never)
  next
    case (Some tid)
    then show ?thesis
      by (simp add: spec_strength_def cid relationshipMatrix_find split: option.split)
  qed
qed

lemma calculateTechnicalPriorities_map:
  "calculateTechnicalPriorities data =
     map (\<lambda>t. \<lparr>TechnicalPriority.id = TechnicalRequirement.id t,
                description = TechnicalRequirement.description t,
                score = spec_score data t,
                relativeWeight = 0\<rparr>)
       (technicalRequirements data)"
  unfolding calculateTechnicalPriorities_def spec_score_def Let_def
  by (simp add: relationshipValue_spec foldl_add_sum_list)

text \<open>The strength of the specification is the one the claim describes: 0 when no record
  exists for the pair, and the strength of a record of the pair when the records of the
  pair agree on it (as they do when the pair has one record).\<close>

lemma spec_strength_no_record:
  assumes "\<forall>r \<in> set rels. \<not> (Some (customerReqId r) = CustomerRequirement.id c \<and>
                                 Some (technicalReqId r) = TechnicalRequirement.id t)"
  shows "spec_strength rels c t = 0"
  using assms
  by (auto simp add: spec_strength_def relationshipMatrix_find
      split: option.splits dest!: find_SomeD)

lemma spec_strength_record:
  assumes "r \<in> set rels"
    and "Some (customerReqId r) = CustomerRequirement.id c"
    and "Some (technicalReqId r) = TechnicalRequirement.id t"
    and "\<forall>r' \<in> set rels. customerReqId r' = customerReqId r \<and> technicalReqId r' = technicalReqId r
           \<longrightarrow> strength r' = strength r"
  shows "spec_strength rels c t = strength_value (strength r)"
proof (cases "find (\<lambda>x. customerReqId x = customerReqId r \<and> technicalReqId x = technicalReqId r) rels")
  case None
  from find_NoneD [OF None assms(1)] show ?thesis by simp
next
  case (Some r')
  from find_SomeD [OF Some] assms(4) have "strength r' = strength r" by blast
  with Some assms(2,3) show ?thesis
    by (auto simp add: spec_strength_def relationshipMatrix_find split: option.splits prod.splits)
qed

text \<open>
  C1. \<open>calculateTechnicalPriorities\<close> returns one priority per technical requirement, in the
  order of the input: the entry for a requirement \<open>t\<close> carries the id and the description of
  \<open>t\<close>, the score that is the sum over all customer requirements \<open>c\<close> of the importance of
  \<open>c\<close> times the strength recorded for the pair of \<open>c\<close> and \<open>t\<close> (0 when there is no
  record for the pair), and the relative weight 0.
\<close>

theorem calculateTechnicalPriorities_spec:
  "calculateTechnicalPriorities data =
     map (\<lambda>t. \<lparr>TechnicalPriority.id = TechnicalRequirement.id t,
                description = TechnicalRequirement.description t,
                score = (\<Sum>c\<leftarrow>customerRequirements data.
                           CustomerRequirement.importance c * spec_strength (relationships data) c t),
                relativeWeight = 0\<rparr>)
       (technicalRequirements data) \<and>
   length (calculateTechnicalPriorities data) = length (technicalRequirements data)"
  using calculateTechnicalPriorities_map [of data]
  by (simp add: spec_score_def)

theorem calculateTechnicalPriorities_spec_witness:
  "map score (calculateTechnicalPriorities sampleData) = [51, 45, 45] \<and>
   map relativeWeight (calculateTechnicalPriorities sampleData) = [0, 0, 0] \<and>
   map TechnicalPriority.id (calculateTechnicalPriorities sampleData)
     = [Some ''tech1'', Some ''tech2'', Some ''tech3'']"
  using calculateTechnicalPriorities_spec [of sampleData]
  by (simp add: spec_strength_def relationshipMatrix_def sampleData_def)

section \<open>The weight normaliser\<close>

lemma those_map_Some:
  "(\<And>x. x \<in> set xs \<Longrightarrow> f x = Some (g x)) \<Longrightarrow> those (map f xs) = Some (map g xs)"
  by (induction xs) simp_all

lemma sum_list_scaled:
  fixes k :: real
  shows "(\<Sum>x\<leftarrow>xs. f x / k * 100) = (\<Sum>x\<leftarrow>xs. f x) / k * 100"
  by (induction xs) (simp_all add: add_divide_distrib distrib_right)

lemma normalizeWeights_total:
  "normalizeWeights ps =
     (if sum_list (map score ps) = 0 then Some ps
      else Some (map (\<lambda>p. p\<lparr>relativeWeight := score p / sum_list (map score ps) * 100\<rparr>) ps))"
proof -
  have total: "foldl (\<lambda>sum p. sum + score p) 0 ps = sum_list (map score ps)"
    by (simp add: foldl_add_sum_list)
  show ?thesis
  proof (cases "sum_list (map score ps) = 0")
    case True
    then show ?thesis by (simp add: normalizeWeights_def total)
  next
    case False
    then have "those (map (\<lambda>p. case js_div (score p) (sum_list (map score ps)) of
                 None \<Rightarrow> None
               | Some ratio \<Rightarrow> Some (p\<lparr>relativeWeight := ratio * 100\<rparr>)) ps)
             = Some (map (\<lambda>p. p\<lparr>relativeWeight := score p / sum_list (map score ps) * 100\<rparr>) ps)"
      by (intro those_map_Some) (simp add: js_div_def)
    with False show ?thesis by (simp add: normalizeWeights_def total)
  qed
qed

text \<open>
  C2. Let the total be the sum of the scores of a sequence of priorities. When the total is
  positive, \<open>normalizeWeights\<close> returns the sequence in the same order with each relative
  weight replaced by score / total * 100 and every other field kept, and the relative weights
  of the result sum to 100. When the total is 0 it returns the input unchanged, so relative
  weights that were 0 are still 0. In no case is a division by zero performed: the function
  always returns a sequence.
\<close>

theorem normalizeWeights_spec:
  fixes ps :: "TechnicalPriority list"
  defines "totalScore \<equiv> sum_list (map score ps)"
  defines "normalized \<equiv> map (\<lambda>p. p\<lparr>relativeWeight := score p / totalScore * 100\<rparr>) ps"
  shows
  "(totalScore > 0 \<longrightarrow>
      normalizeWeights ps = Some normalized \<and>
      length normalized = length ps \<and>
      sum_list (map relativeWeight normalized) = 100) \<and>
   (totalScore = 0 \<longrightarrow>
      normalizeWeights ps = Some ps \<and>
      ((\<forall>p \<in> set ps. relativeWeight p = 0) \<longrightarrow>
         (\<exists>qs. normalizeWeights ps = Some qs \<and> (\<forall>q \<in> set qs. relativeWeight q = 0)))) \<and>
   (\<exists>qs. normalizeWeights ps = Some qs)"
proof -
  have "sum_list (map relativeWeight normalized) = 100" if "totalScore > 0"
  proof -
    have "sum_list (map relativeWeight normalized) = (\<Sum>p\<leftarrow>ps. score p / totalScore * 100)"
      by (simp add: normalized_def comp_def)
    also have "\<dots> = (\<Sum>p\<leftarrow>ps. score p) / totalScore * 100"
      by (rule sum_list_scaled)
    also have "\<dots> = 100"
      using that by (simp add: totalScore_def)
    finally show ?thesis .
  qed
  then show ?thesis
    by (simp add: normalizeWeights_total normalized_def totalScore_def)
qed

theorem normalizeWeights_spec_witness:
  "normalizeWeights
      [\<lparr>TechnicalPriority.id = Some ''a'', description = ''A'', score = 60, relativeWeight = 0\<rparr>,
       \<lparr>TechnicalPriority.id = Some ''b'', description = ''B'', score = 40, relativeWeight = 0\<rparr>]
     = Some
      [\<lparr>TechnicalPriority.id = Some ''a'', description = ''A'', score = 60, relativeWeight = 60\<rparr>,
       \<lparr>TechnicalPriority.id = Some ''b'', description = ''B'', score = 40, relativeWeight = 40\<rparr>] \<and>
   normalizeWeights
      [\<lparr>TechnicalPriority.id = Some ''a'', description = ''A'', score = 0, relativeWeight = 0\<rparr>,
       \<lparr>TechnicalPriority.id = Some ''b'', description = ''B'', score = 0, relativeWeight = 0\<rparr>]
     = Some
      [\<lparr>TechnicalPriority.id = Some ''a'', description = ''A'', score = 0, relativeWeight = 0\<rparr>,
       \<lparr>TechnicalPriority.id = Some ''b'', description = ''B'', score = 0, relativeWeight = 0\<rparr>]"
  using normalizeWeights_spec [of
      "[\<lparr>TechnicalPriority.id = Some ''a'', description = ''A'', score = 60, relativeWeight = 0\<rparr>,
        \<lparr>TechnicalPriority.id = Some ''b'', description = ''B'', score = 40, relativeWeight = 0\<rparr>]"]
    normalizeWeights_spec [of
      "[\<lparr>TechnicalPriority.id = Some ''a'', description = ''A'', score = 0, relativeWeight = 0\<rparr>,
        \<lparr>TechnicalPriority.id = Some ''b'', description = ''B'', score = 0, relativeWeight = 0\<rparr>]"]
  by simp

section \<open>The target impact analysis\<close>

lemma Math_max_append_one: "Math_max (xs @ [1]) = Some (Max (insert 1 (set xs)))"
proof (cases xs)
  case Nil
  then show ?thesis by simp
next
  case (Cons x ys)
  have "fold max (ys @ [1]) x = Max (set (x # ys @ [1]))"
    by (rule Max.set_eq_fold [symmetric])
  with Cons show ?thesis by (simp add: insert_commute)
qed

lemma spec_score_id:
  "TechnicalRequirement.id t = TechnicalRequirement.id t' \<Longrightarrow> spec_score data t = spec_score data t'"
  by (simp add: spec_score_def spec_strength_def)

lemma find_priority:
  assumes "t \<in> set ts"
  shows "\<exists>p. find (\<lambda>p. TechnicalPriority.id p = TechnicalRequirement.id t)
               (map (\<lambda>t. \<lparr>TechnicalPriority.id = TechnicalRequirement.id t,
                           description = TechnicalRequirement.description t,
                           score = spec_score data t,
                           relativeWeight = 0\<rparr>) ts) = Some p \<and>
             score p = spec_score data t"
  using assms
proof (induction ts)
  case Nil
  then show ?case by simp
next
  case (Cons u us)
  show ?case
  proof (cases "TechnicalRequirement.id u = TechnicalRequirement.id t")
    case True
    then show ?thesis by (simp add: spec_score_id [of u t])
  next
    case False
    with Cons show ?thesis by auto
  qed
qed

lemma those_map_ex:
  "(\<And>x. x \<in> set xs \<Longrightarrow> \<exists>y. f x = Some y \<and> P x y) \<Longrightarrow>
     \<exists>ys. those (map f xs) = Some ys \<and> list_all2 P xs ys"
proof (induction xs)
  case Nil
  then show ?case by simp
next
  case (Cons x xs)
  from Cons.prems [of x] obtain y where y: "f x = Some y" "P x y" by auto
  from Cons.IH Cons.prems obtain ys where ys: "those (map f xs) = Some ys" "list_all2 P xs ys"
    by auto
  from y ys show ?case by simp
qed

text \<open>
  C10. \<open>calculateTargetImpact\<close> always returns an analysis list, one entry per technical
  requirement in order: no division by zero and no maximum of nothing is met. The priority
  score of each entry is the raw score of its requirement, and its normalized priority is
  that score divided by the maximum of 1 and all raw scores, times 100. The divisor is at
  least 1. When every raw score is 0 (in particular when there is no technical requirement)
  every normalized priority is 0.
\<close>

theorem calculateTargetImpact_normalizedPriority:
  fixes data :: QFDData
  defines "scores \<equiv> map score (calculateTechnicalPriorities data)"
  defines "maxScore \<equiv> Max (insert 1 (set scores))"
  shows
  "\<exists>analyses. calculateTargetImpact data = Some analyses \<and>
      length analyses = length (technicalRequirements data) \<and>
      map priorityScore analyses = scores \<and>
      map normalizedPriority analyses = map (\<lambda>s. s / maxScore * 100) scores \<and>
      1 \<le> maxScore \<and>
      (scores \<noteq> [] \<longrightarrow> maxScore = max (Max (set scores)) 1) \<and>
      ((\<forall>s \<in> set scores. s = 0) \<longrightarrow> (\<forall>a \<in> set analyses. normalizedPriority a = 0))"
proof -
  let ?ts = "technicalRequirements data"
  have scores: "scores = map (spec_score data) ?ts"
    by (simp add: scores_def calculateTechnicalPriorities_map comp_def)
  have mm: "Math_max (map score (calculateTechnicalPriorities data) @ [1]) = Some maxScore"
    by (simp add: Math_max_append_one maxScore_def scores_def)
  have ge: "1 \<le> maxScore"
    by (simp add: maxScore_def)
  have each: "\<exists>a. targetImpactOf data (calculateTechnicalPriorities data) maxScore t = Some a \<and>
          (priorityScore a = spec_score data t \<and>
           normalizedPriority a = spec_score data t / maxScore * 100)"
    if "t \<in> set ?ts" for t
  proof -
    from find_priority [OF that, of data] obtain p where
      p: "find (\<lambda>p. TechnicalPriority.id p = TechnicalRequirement.id t)
            (calculateTechnicalPriorities data) = Some p" "score p = spec_score data t"
      by (auto simp add: calculateTechnicalPriorities_map)
    from ge have "maxScore \<noteq> 0" by simp
    with p show ?thesis
      by (simp add: targetImpactOf_def Let_def js_div_def)
  qed
  from those_map_ex [of ?ts _ "\<lambda>t a. priorityScore a = spec_score data t \<and>
           normalizedPriority a = spec_score data t / maxScore * 100", OF each]
  obtain analyses where
    res: "calculateTargetImpact data = Some analyses"
    and all2: "list_all2 (\<lambda>t a. priorityScore a = spec_score data t \<and>
           normalizedPriority a = spec_score data t / maxScore * 100) ?ts analyses"
    unfolding calculateTargetImpact_def Let_def mm by auto
  from all2 have len: "length analyses = length ?ts"
    by (simp add: list_all2_lengthD)
  from all2 have ps: "map priorityScore analyses = scores"
    unfolding scores by (induction rule: list_all2_induct) simp_all
  from all2 have np: "map normalizedPriority analyses = map (\<lambda>s. s / maxScore * 100) scores"
    unfolding scores by (induction rule: list_all2_induct) simp_all
  have mx: "maxScore = max (Max (set scores)) 1" if "scores \<noteq> []"
    using that by (simp add: maxScore_def max.commute)
  have zero: "\<forall>a \<in> set analyses. normalizedPriority a = 0" if "\<forall>s \<in> set scores. s = 0"
  proof -
    from that have "map (\<lambda>s. s / maxScore * 100) scores = map (\<lambda>s. 0) scores"
      by simp
    with np have "map normalizedPriority analyses = map (\<lambda>s. 0) scores" by simp
    then have "set (map normalizedPriority analyses) \<subseteq> {0}" by auto
    then show ?thesis by auto
  qed
  from res len ps np ge mx zero show ?thesis by blast
qed

theorem calculateTargetImpact_normalizedPriority_witness:
  "(\<exists>analyses. calculateTargetImpact (sampleData\<lparr>relationships := []\<rparr>) = Some analyses \<and>
      map priorityScore analyses = [0, 0, 0] \<and>
      map normalizedPriority analyses = [0, 0, 0]) \<and>
   (\<exists>analyses. calculateTargetImpact (sampleData\<lparr>technicalRequirements := []\<rparr>) = Some analyses \<and>
      length analyses = 0) \<and>
   (\<exists>analyses. calculateTargetImpact sampleData = Some analyses \<and>
      map priorityScore analyses = [51, 45, 45] \<and>
      map normalizedPriority analyses = [100, 45 / 51 * 100, 45 / 51 * 100])"
proof -
  have a: "map score (calculateTechnicalPriorities (sampleData\<lparr>relationships := []\<rparr>)) = [0, 0, 0]"
    by (simp add: calculateTechnicalPriorities_def sampleData_def)
  have b: "map score (calculateTechnicalPriorities sampleData) = [51, 45, 45]"
    by (simp add: calculateTechnicalPriorities_def sampleData_def)
  have c: "technicalRequirements (sampleData\<lparr>technicalRequirements := []\<rparr>) = []"
    by simp
  have zero: "\<exists>analyses. calculateTargetImpact (sampleData\<lparr>relationships := []\<rparr>) = Some analyses \<and>
      map priorityScore analyses = [0, 0, 0] \<and>
      map normalizedPriority analyses = [0, 0, 0]"
    using calculateTargetImpact_normalizedPriority [of "sampleData\<lparr>relationships := []\<rparr>"]
    unfolding a by auto
  have none: "\<exists>analyses. calculateTargetImpact (sampleData\<lparr>technicalRequirements := []\<rparr>) = Some analyses \<and>
      length analyses = 0"
    using calculateTargetImpact_normalizedPriority [of "sampleData\<lparr>technicalRequirements := []\<rparr>"]
    unfolding c by auto
  have sample: "\<exists>analyses. calculateTargetImpact sampleData = Some analyses \<and>
      map priorityScore analyses = [51, 45, 45] \<and>
      map normalizedPriority analyses = [100, 45 / 51 * 100, 45 / 51 * 100]"
    using calculateTargetImpact_normalizedPriority [of sampleData]
    unfolding b by auto
  from zero none sample show ?thesis by blast
qed

section \<open>Correlation insights\<close>

lemma pushInsight_cases:
  "pushInsight data bp acc corr = acc \<or>
   (\<exists>p1 p2 i. pushInsight data bp acc corr = acc @ [i] \<and> p1 \<in> set bp \<and> p2 \<in> set bp \<and>
      CorrelationInsight.correlation i = TechnicalCorrelation.correlation corr \<and>
      priority1Score i = score p1 \<and> priority2Score i = score p2 \<and>
      CorrelationInsight.recommendation i =
        getCorrelationRecommendation (TechnicalCorrelation.correlation corr) (score p1) (score p2))"
  unfolding pushInsight_def Let_def
  by (auto split: option.splits dest!: find_SomeD)

lemma foldl_pushInsight_inv:
  assumes "\<forall>i \<in> set acc. Q i"
    and "\<And>i. CorrelationInsight.recommendation i =
            getCorrelationRecommendation (CorrelationInsight.correlation i)
              (priority1Score i) (priority2Score i) \<Longrightarrow>
          priority1Score i \<in> score ` set bp \<Longrightarrow> priority2Score i \<in> score ` set bp \<Longrightarrow> Q i"
  shows "\<forall>i \<in> set (foldl (pushInsight data bp) acc corrs). Q i"
  using assms(1)
proof (induction corrs arbitrary: acc)
  case Nil
  then show ?case by simp
next
  case (Cons c cs)
  have "\<forall>i \<in> set (pushInsight data bp acc c). Q i"
    using pushInsight_cases [of data bp acc c] Cons.prems assms(2) by auto
  from Cons.IH [OF this] show ?case by simp
qed

lemma calculateCorrelationImpact_insights:
  "\<forall>i \<in> set (correlationInsights (calculateCorrelationImpact data)).
      CorrelationInsight.recommendation i =
        getCorrelationRecommendation (CorrelationInsight.correlation i)
          (priority1Score i) (priority2Score i) \<and>
      priority1Score i \<in> score ` set (calculateTechnicalPriorities data) \<and>
      priority2Score i \<in> score ` set (calculateTechnicalPriorities data)"
  unfolding calculateCorrelationImpact_def Let_def
  by (simp, rule foldl_pushInsight_inv) simp_all

text \<open>
  C7. The recommendation of a correlation insight is decided by the sum of the two scores it
  is given and a threshold that belongs to the correlation value: for a strong positive
  correlation the urgent message exactly when the sum is above 50 and the mild one exactly
  when it is at most 50; for a positive correlation the threshold is 40, for a negative one
  60, for a strong negative one 50. A strong positive pair with scores 30 and 25 gets the
  HIGH PRIORITY message. In the insights of \<open>calculateCorrelationImpact\<close> the two scores are
  raw scores of \<open>calculateTechnicalPriorities\<close>, not normalized percentages.
\<close>

theorem correlation_recommendation_thresholds:
  fixes score1 score2 :: real and data :: QFDData
  defines "r \<equiv> (\<lambda>c. getCorrelationRecommendation c score1 score2)"
  shows
  "(r CorrelationType.STRONG_POSITIVE =
      ''HIGH PRIORITY: Focus on solutions that address both requirements simultaneously for maximum impact.''
      \<longleftrightarrow> score1 + score2 > 50) \<and>
   (r CorrelationType.STRONG_POSITIVE =
      ''Consider bundling these requirements in your development approach.''
      \<longleftrightarrow> score1 + score2 \<le> 50) \<and>
   (r CorrelationType.POSITIVE =
      ''Look for integrated solutions that can improve both requirements together.''
      \<longleftrightarrow> score1 + score2 > 40) \<and>
   (r CorrelationType.POSITIVE =
      ''Moderate synergy - consider combined approaches when possible.''
      \<longleftrightarrow> score1 + score2 \<le> 40) \<and>
   (r CorrelationType.NEGATIVE =
      ''CRITICAL: High-priority requirements in conflict. Develop compromise solutions or phased approach.''
      \<longleftrightarrow> score1 + score2 > 60) \<and>
   (r CorrelationType.NEGATIVE =
      ''Monitor trade-offs carefully during implementation.''
      \<longleftrightarrow> score1 + score2 \<le> 60) \<and>
   (r CorrelationType.STRONG_NEGATIVE =
      ''URGENT: Strong conflict between important requirements. Consider alternative approaches or accept trade-offs.''
      \<longleftrightarrow> score1 + score2 > 50) \<and>
   (r CorrelationType.STRONG_NEGATIVE =
      ''Strong conflict exists - may need to prioritize one over the other.''
      \<longleftrightarrow> score1 + score2 \<le> 50) \<and>
   getCorrelationRecommendation CorrelationType.STRONG_POSITIVE 30 25 =
      ''HIGH PRIORITY: Focus on solutions that address both requirements simultaneously for maximum impact.'' \<and>
   (\<forall>i \<in> set (correlationInsights (calculateCorrelationImpact data)).
      CorrelationInsight.recommendation i =
        getCorrelationRecommendation (CorrelationInsight.correlation i)
          (priority1Score i) (priority2Score i) \<and>
      priority1Score i \<in> score ` set (calculateTechnicalPriorities data) \<and>
      priority2Score i \<in> score ` set (calculateTechnicalPriorities data))"
  unfolding r_def
  by (intro conjI calculateCorrelationImpact_insights;
      simp add: getCorrelationRecommendation_def)

theorem correlation_recommendation_thresholds_witness:
  "map score (priorities (calculateCorrelationImpact scenarioC)) = [30, 25] \<and>
   map CorrelationInsight.recommendation (correlationInsights (calculateCorrelationImpact scenarioC)) =
     [''HIGH PRIORITY: Focus on solutions that address both requirements simultaneously for maximum impact.'']"
proof -
  have p: "calculateTechnicalPriorities scenarioC =
     [\<lparr>TechnicalPriority.id = Some ''a'', description = ''A'', score = 30, relativeWeight = 0\<rparr>,
      \<lparr>TechnicalPriority.id = Some ''b'', description = ''B'', score = 25, relativeWeight = 0\<rparr>]"
    by (simp add: calculateTechnicalPriorities_def scenarioC_def)
  have i: "map (\<lambda>i. (CorrelationInsight.correlation i, priority1Score i, priority2Score i))
             (correlationInsights (calculateCorrelationImpact scenarioC)) =
           [(CorrelationType.STRONG_POSITIVE, 30, 25)]"
    unfolding calculateCorrelationImpact_def Let_def p
    by (simp add: pushInsight_def scenarioC_def)
  have pr: "priorities (calculateCorrelationImpact scenarioC) = calculateTechnicalPriorities scenarioC"
    by (simp add: calculateCorrelationImpact_def Let_def)
  from i obtain z where z: "correlationInsights (calculateCorrelationImpact scenarioC) = [z]"
    "CorrelationInsight.correlation z = CorrelationType.STRONG_POSITIVE"
    "priority1Score z = 30" "priority2Score z = 25"
    by auto
  show ?thesis
    using correlation_recommendation_thresholds [of 30 25 scenarioC] z
    by (simp add: pr p)
qed

section \<open>Storing a correlation\<close>

lemma findIndex_ge_minus_one: "- 1 \<le> findIndex P xs"
  by (induction xs) (simp_all add: Let_def)

lemma findIndex_found_iff: "0 \<le> findIndex P xs \<longleftrightarrow> (\<exists>x \<in> set xs. P x)"
  using findIndex_ge_minus_one [of P]
  by (induction xs) (auto simp add: Let_def)

lemma findIndex_nth:
  "0 \<le> findIndex P xs \<Longrightarrow> nat (findIndex P xs) < length xs \<and> P (xs ! nat (findIndex P xs))"
proof (induction xs)
  case Nil
  then show ?case by simp
next
  case (Cons x xs)
  show ?case
  proof (cases "P x")
    case True
    then show ?thesis by simp
  next
    case False
    with Cons.prems have ge: "0 \<le> findIndex P xs"
      by (simp add: Let_def split: if_splits)
    then have "nat (findIndex P xs + 1) = Suc (nat (findIndex P xs))"
      by simp
    with False ge Cons.IH [OF ge] show ?thesis
      by (simp add: Let_def)
  qed
qed

lemma sort_pair: "sort [a, b] = [min a b, max a b]"
  by (simp add: min_def max_def)

lemma samePair_canonical:
  "samePair a b corr \<longleftrightarrow> canonicalPair corr = (min a b, max a b)"
  by (auto simp add: samePair_def canonicalPair_def min_def max_def split: if_splits)

lemma filter_unique_key:
  assumes "distinct (map f xs)" and "i < length xs" and "f (xs ! i) = f y"
  shows "filter (\<lambda>x. f x = f y) (xs[i := y]) = [y]"
  using assms
proof (induction xs arbitrary: i)
  case Nil
  then show ?case by simp
next
  case (Cons x xs)
  show ?case
  proof (cases i)
    case 0
    with Cons.prems have "f y \<notin> f ` set xs" by auto
    then have "\<forall>z \<in> set xs. f z \<noteq> f y" by (metis image_eqI)
    then have "filter (\<lambda>x. f x = f y) xs = []" by (simp add: filter_empty_conv)
    with 0 show ?thesis by simp
  next
    case (Suc j)
    with Cons.prems have j: "j < length xs" "f (xs ! j) = f y" "distinct (map f xs)" by auto
    from Suc Cons.prems j have "f x \<noteq> f y"
      by (metis distinct.simps(2) list.simps(9) nth_mem image_eqI list.set_map)
    with Suc Cons.IH [OF j(3) j(1) j(2)] show ?thesis by simp
  qed
qed

lemma distinct_map_update:
  assumes "distinct (map f xs)" and "i < length xs" and "f (xs ! i) = f y"
  shows "distinct (map f (xs[i := y]))"
proof -
  have "map f (xs[i := y]) = (map f xs)[i := f y]" by (rule map_update)
  also have "\<dots> = map f xs" using assms(2,3) by (metis list_update_id nth_map)
  finally show ?thesis using assms(1) by simp
qed


lemma updateCorrelation_commute:
  "updateCorrelation a b c prev = updateCorrelation b a c prev"
proof -
  have P: "(\<lambda>corr. (techReq1Id corr = a \<and> techReq2Id corr = b) \<or>
                 (techReq1Id corr = b \<and> techReq2Id corr = a)) =
        (\<lambda>corr. (techReq1Id corr = b \<and> techReq2Id corr = a) \<or>
                 (techReq1Id corr = a \<and> techReq2Id corr = b))"
    by (auto simp add: fun_eq_iff)
  have S: "sort [a, b] = sort [b, a]"
    by (simp only: sort_pair min.commute [of a b] max.commute [of a b])
  show ?thesis
    unfolding updateCorrelation_def by (simp only: P S)
qed

lemma updateCorrelation_store:
  assumes "c \<noteq> CorrelationType.NONE"
  shows "technicalCorrelations (updateCorrelation a b c prev) =
     (if \<exists>x \<in> set (technicalCorrelations prev). samePair a b x
      then (technicalCorrelations prev)
             [nat (findIndex (samePair a b) (technicalCorrelations prev)) :=
                \<lparr>techReq1Id = min a b, techReq2Id = max a b, correlation = c\<rparr>]
      else technicalCorrelations prev @
             [\<lparr>techReq1Id = min a b, techReq2Id = max a b, correlation = c\<rparr>])"
proof -
  have P: "(\<lambda>corr. (techReq1Id corr = a \<and> techReq2Id corr = b) \<or>
                 (techReq1Id corr = b \<and> techReq2Id corr = a)) = samePair a b"
    by (simp add: samePair_def fun_eq_iff)
  show ?thesis
    unfolding updateCorrelation_def P Let_def sort_pair
    using assms by (simp add: findIndex_found_iff)
qed

text \<open>
  C9. For distinct requirement ids \<open>a\<close> and \<open>b\<close>, a correlation value other than None, and
  a state whose correlation list has at most one record per unordered pair: storing the
  correlation with the arguments \<open>(a, b)\<close> and with the arguments \<open>(b, a)\<close> gives the same
  state; afterwards the list holds exactly one record for the pair, the one with the smaller
  id first, the larger id second and the given correlation value; the list still has at most
  one record per unordered pair; and the correlation insights and the target impact analysis
  computed from the new state do not depend on the argument order.
\<close>

theorem updateCorrelation_symmetric:
  fixes a b :: string and c :: CorrelationType and prev :: QFDData
  assumes "a \<noteq> b" and "c \<noteq> CorrelationType.NONE"
    and "uniquePairs (technicalCorrelations prev)"
  defines "stored \<equiv> \<lparr>techReq1Id = min a b, techReq2Id = max a b, correlation = c\<rparr>"
  shows
  "updateCorrelation a b c prev = updateCorrelation b a c prev \<and>
   filter (samePair a b) (technicalCorrelations (updateCorrelation a b c prev)) = [stored] \<and>
   techReq1Id stored < techReq2Id stored \<and>
   uniquePairs (technicalCorrelations (updateCorrelation a b c prev)) \<and>
   calculateCorrelationImpact (updateCorrelation a b c prev) =
     calculateCorrelationImpact (updateCorrelation b a c prev) \<and>
   calculateTargetImpact (updateCorrelation a b c prev) =
     calculateTargetImpact (updateCorrelation b a c prev)"
proof -
  let ?cs = "technicalCorrelations prev"
  let ?i = "nat (findIndex (samePair a b) ?cs)"
  have key: "canonicalPair stored = (min a b, max a b)"
    using linear [of a b] by (auto simp add: canonicalPair_def stored_def min_def max_def)
  have same: "samePair a b = (\<lambda>x. canonicalPair x = canonicalPair stored)"
    by (simp add: fun_eq_iff samePair_canonical key)
  have dist: "distinct (map canonicalPair ?cs)"
    using assms(3) by (simp add: uniquePairs_def)
  have less: "techReq1Id stored < techReq2Id stored"
    using assms(1) linear [of a b] by (auto simp add: stored_def min_def max_def)
  have comm: "updateCorrelation a b c prev = updateCorrelation b a c prev"
    by (rule updateCorrelation_commute)
  have "filter (samePair a b) (technicalCorrelations (updateCorrelation a b c prev)) = [stored] \<and>
        uniquePairs (technicalCorrelations (updateCorrelation a b c prev))"
  proof (cases "\<exists>x \<in> set ?cs. samePair a b x")
    case True
    then have ge: "0 \<le> findIndex (samePair a b) ?cs"
      by (simp add: findIndex_found_iff)
    from findIndex_nth [OF ge] have i: "?i < length ?cs" "canonicalPair (?cs ! ?i) = canonicalPair stored"
      by (simp_all add: same)
    have upd: "technicalCorrelations (updateCorrelation a b c prev) = ?cs[?i := stored]"
      using True by (simp add: updateCorrelation_store [OF assms(2)] stored_def)
    show ?thesis
      unfolding upd uniquePairs_def
      using filter_unique_key [OF dist i] distinct_map_update [OF dist i] by (simp add: same)
  next
    case False
    then have none: "\<forall>x \<in> set ?cs. canonicalPair x \<noteq> canonicalPair stored"
      by (simp add: same)
    have upd: "technicalCorrelations (updateCorrelation a b c prev) = ?cs @ [stored]"
      using False by (simp add: updateCorrelation_store [OF assms(2)] stored_def)
    from none have "filter (\<lambda>x. canonicalPair x = canonicalPair stored) ?cs = []"
      by (simp add: filter_empty_conv)
    moreover from none have "canonicalPair stored \<notin> set (map canonicalPair ?cs)"
      by auto
    ultimately show ?thesis
      unfolding upd uniquePairs_def using dist by (simp add: same)
  qed
  with less comm show ?thesis by simp
qed

theorem updateCorrelation_symmetric_witness:
  "''tech3'' \<noteq> ''tech1'' \<and> CorrelationType.NEGATIVE \<noteq> CorrelationType.NONE \<and>
   uniquePairs (technicalCorrelations sampleData) \<and>
   updateCorrelation ''tech3'' ''tech1'' CorrelationType.NEGATIVE sampleData =
     updateCorrelation ''tech1'' ''tech3'' CorrelationType.NEGATIVE sampleData \<and>
   filter (samePair ''tech3'' ''tech1'')
     (technicalCorrelations (updateCorrelation ''tech3'' ''tech1'' CorrelationType.NEGATIVE sampleData)) =
     [\<lparr>techReq1Id = ''tech1'', techReq2Id = ''tech3'', correlation = CorrelationType.NEGATIVE\<rparr>]"
proof -
  have u: "uniquePairs (technicalCorrelations sampleData)"
    by (simp add: uniquePairs_def canonicalPair_def sampleData_def)
  have n: "''tech3'' \<noteq> ''tech1''" by simp
  have c: "CorrelationType.NEGATIVE \<noteq> CorrelationType.NONE" by simp
  from updateCorrelation_symmetric [OF n c u] u show ?thesis by auto
qed

end
